theory Spec2Isabelle
  imports Main "HOL-Library.Word"
begin

section \<open>Tokens and positions\<close>

text \<open>
  Modelled from the spec: the enumeration \<open>tokKind\<close> is declared in the tokenizer, which
  is not among the sources. The kinds are the ones section 3.1 of the specification
  lists, under the names \<open>parse.go\<close> uses for them, plus \<open>unknown\<close>, which
  \<open>parse.go\<close> itself mentions. Kinds whose names are constants of HOL carry the suffix
  \<open>_tok\<close>.
\<close>

datatype tokKind =
    unknown
  | comma | dot | colon | underscore | qmark | exclam | ellipsis
  | leftParen | rightParen | leftBracket | rightBracket | leftBrace | rightBrace
  | assign | nonlocalAssign | branchArrow | pipeArrow | pushArrow
  | plus_tok | minus_tok | times_tok | divide_tok | modulus
  | eq_tok | geq | leq | greater_tok | less_tok | neq
  | and_tok | or_tok | xor_tok
  | ifKeyword | fnKeyword | withKeyword | trueLiteral | falseLiteral
  | stringLiteral | numberLiteral | "identifier"

text \<open>
  Modelled from the spec: \<open>pos\<close> and \<open>token\<close> are declared in the tokenizer too. A
  position is file, line and column; a token carries kind, payload and position.
\<close>

record pos =
  fileName :: string
  line :: int
  col :: int

definition zeroPos :: pos where
  "zeroPos = \<lparr>fileName = [], line = 0, col = 0\<rparr>"

record token =
  kind :: tokKind
  payload :: string
  pos :: pos

text \<open>The Go literal \<open>token{kind: k}\<close>: every other field has its zero value.\<close>

definition tokenOfKind :: "tokKind \<Rightarrow> token" where
  "tokenOfKind k = \<lparr>kind = k, payload = [], pos = zeroPos\<rparr>"

section \<open>Syntax trees\<close>

text \<open>
  \<open>float64\<close> is kept as its 64-bit pattern; no arithmetic on it is modelled.
  \<open>int64\<close> payloads are integers that \<open>ParseInt\<close> keeps within the 64-bit range.
\<close>

type_synonym float64 = "64 word"

datatype astNode =
    emptyNode
  | nullNode
  | stringNode string
  | numberNode bool int float64
  | booleanNode bool
  | atomNode string
  | listNode "astNode list"
  | objectNode "objectEntryNode list"
  | fnNode string "string list" string astNode
  | identifierNode string
  | assignmentNode bool astNode astNode
  | propertyAccessNode astNode astNode
  | unaryNode tokKind astNode
  | binaryNode tokKind astNode astNode
  | fnCallNode astNode "astNode list"
  | ifExprNode astNode "ifBranchNode list"
  | blockNode "astNode list"
and objectEntryNode = objectEntryNode astNode astNode
and ifBranchNode = ifBranchNode astNode astNode

section \<open>Errors, panics and results\<close>

text \<open>
  The reason of a parse error is a formatted string. The formats print tokens through
  \<open>token.String\<close>, which belongs to the tokenizer, so a reason is kept as its format
  together with the arguments:
  \<^item> \<open>UnexpectedEOFExpected k\<close>: "Unexpected end of input, expected k";
  \<^item> \<open>UnexpectedTokenExpected t k\<close>: "Unexpected token t, expected k";
  \<^item> \<open>ExpectedIdentifierAfterColon t\<close>: "Expected identifier after ':', got t";
  \<^item> \<open>UnexpectedEOFInBlockOrObject\<close>: "Unexpected end of input inside block or object";
  \<^item> \<open>NumberError e\<close>: the text of the \<open>strconv\<close> error \<open>e\<close>.
\<close>

datatype numError = ErrSyntax string | ErrRange string

datatype reason =
    UnexpectedEOFExpected tokKind
  | UnexpectedTokenExpected token tokKind
  | ExpectedIdentifierAfterColon token
  | UnexpectedEOFInBlockOrObject
  | NumberError numError

record parseError =
  reason :: reason
  errPos :: pos

text \<open>
  Every \<open>parseError\<close> literal of \<open>parse.go\<close> sets \<open>reason\<close> only: the embedded
  position keeps its zero value.
\<close>

definition mkParseError :: "reason \<Rightarrow> parseError" where
  "mkParseError r = \<lparr>reason = r, errPos = zeroPos\<rparr>"

text \<open>
  A Go panic is either the explicit \<open>panic\<close> call of \<open>expect\<close> or the run-time panic of
  a slice index out of range (index and length).
\<close>

datatype panic =
    ExpectedGot tokKind token
  | IndexOutOfRange nat nat

text \<open>
  What a call does: it returns a value, returns a parse error, panics, or has not
  returned when the fuel of the model ran out.
\<close>

datatype 'a res = Ok 'a | Error parseError | Panic panic | OutOfFuel

fun bindR :: "'a res \<Rightarrow> ('a \<Rightarrow> 'b res) \<Rightarrow> 'b res" where
  "bindR (Ok x) f = f x"
| "bindR (Error e) f = Error e"
| "bindR (Panic m) f = Panic m"
| "bindR OutOfFuel f = OutOfFuel"

section \<open>The parser state and its primitives\<close>

record parser =
  tokens :: "token list"
  index :: nat

definition newParser :: "token list \<Rightarrow> parser" where
  "newParser ts = \<lparr>tokens = ts, index = 0\<rparr>"

definition isEOF :: "parser \<Rightarrow> bool" where
  "isEOF p = (index p = length (tokens p))"

definition peek :: "parser \<Rightarrow> token res" where
  "peek p =
     (if index p < length (tokens p) then Ok (tokens p ! index p)
      else Panic (IndexOutOfRange (index p) (length (tokens p))))"

definition peekAhead :: "nat \<Rightarrow> parser \<Rightarrow> token res" where
  "peekAhead n p =
     (if index p + n > length (tokens p) then Ok (tokenOfKind comma)
      else if index p + n < length (tokens p) then Ok (tokens p ! (index p + n))
      else Panic (IndexOutOfRange (index p + n) (length (tokens p))))"

definition nextTok :: "parser \<Rightarrow> (token \<times> parser) res" where
  "nextTok p =
     (if index p < length (tokens p)
      then Ok (tokens p ! index p, p\<lparr>index := index p + 1\<rparr>)
      else Panic (IndexOutOfRange (index p) (length (tokens p))))"

definition backTok :: "parser \<Rightarrow> parser" where
  "backTok p = (if index p > 0 then p\<lparr>index := index p - 1\<rparr> else p)"

text \<open>
  \<open>expect\<close> returns an error at the end of input. On a token of another kind it
  panics: the \<open>return\<close> of a parse error that follows the \<open>panic\<close> call in the source
  is never reached.
\<close>

definition expect :: "tokKind \<Rightarrow> parser \<Rightarrow> (token \<times> parser) res" where
  "expect k p =
     (if isEOF p then Error (mkParseError (UnexpectedEOFExpected k))
      else bindR (nextTok p) (\<lambda>(nx, p').
        if kind nx \<noteq> k then Panic (ExpectedGot k nx) else Ok (nx, p')))"

section \<open>Number literals\<close>

text \<open>
  \<open>strconv.ParseInt(s, 10, 64)\<close> of the Go library: an optional sign, then decimal
  digits only; the digits are accumulated from the left with the library's overflow
  checks, so that the first offending character decides between a syntax and a range
  error.
\<close>

definition isDigit :: "char \<Rightarrow> bool" where
  "isDigit c = (48 \<le> (of_char c :: nat) \<and> (of_char c :: nat) \<le> 57)"

fun parseUintLoop :: "string \<Rightarrow> nat \<Rightarrow> bool + nat" where
  "parseUintLoop [] n = Inr n"
| "parseUintLoop (c # cs) n =
     (if \<not> isDigit c then Inl False
      else if n \<ge> (2 ^ 64 - 1) div 10 + 1 then Inl True
      else if n * 10 + (of_char c - 48) \<ge> 2 ^ 64 then Inl True
      else parseUintLoop cs (n * 10 + (of_char c - 48)))"

definition ParseInt :: "string \<Rightarrow> numError + int" where
  "ParseInt s =
     (if s = [] then Inl (ErrSyntax s)
      else
        let neg = (hd s = CHR ''-'');
            ds = (if hd s = CHR ''+'' \<or> hd s = CHR ''-'' then tl s else s)
        in if ds = [] then Inl (ErrSyntax s)
           else (case parseUintLoop ds 0 of
               Inl False \<Rightarrow> Inl (ErrSyntax s)
             | Inl True \<Rightarrow> Inl (ErrRange s)
             | Inr un \<Rightarrow>
                 if \<not> neg \<and> un \<ge> 2 ^ 63 then Inl (ErrRange s)
                 else if neg \<and> un > 2 ^ 63 then Inl (ErrRange s)
                 else Inr (if neg then - int un else int un)))"

section \<open>The parser\<close>

text \<open>
  Every function of the parser takes fuel: a call or a loop iteration costs one unit,
  and \<open>OutOfFuel\<close> is the answer when none is left. A call of the source returns
  exactly when some amount of fuel gives an answer other than \<open>OutOfFuel\<close>.

  \<open>strconv.ParseFloat\<close> is a parameter \<open>pf\<close> of the model: it maps the text of a
  literal to an error or to a \<open>float64\<close>.

  A \<open>switch\<close> over the kind of a token is a chain of tests in the order of its cases;
  a case with an empty body (the ones marked TODO) leaves the \<open>switch\<close> and does
  nothing else.
\<close>

text \<open>
  The loop over the argument names of a \<open>fn\<close>, after the left parenthesis was eaten.
  It returns the arguments and the rest argument (empty when there is none).
\<close>

fun fnArgsLoop :: "nat \<Rightarrow> string list \<Rightarrow> parser \<Rightarrow> ((string list \<times> string) \<times> parser) res" where
  "fnArgsLoop 0 args p = OutOfFuel"
| "fnArgsLoop (Suc n) args p =
     (if isEOF p then Ok ((args, []), p)
      else bindR (peek p) (\<lambda>t.
        if kind t = rightParen then Ok ((args, []), p)
        else bindR (expect identifier p) (\<lambda>(arg, p).
          bindR (peek p) (\<lambda>t.
            if kind t = ellipsis
            then bindR (nextTok p) (\<lambda>(_, p).
                   bindR (expect comma p) (\<lambda>(_, p). Ok ((args, payload arg), p)))
            else bindR (expect comma p) (\<lambda>(_, p).
                   fnArgsLoop n (args @ [payload arg]) p)))))"

text \<open>
  \<open>itemsLoop closing acc\<close> is the loop the source writes four times, for list
  elements, the expressions of a block after the first, the expressions between
  parentheses and the arguments of a call: until the end of input or the token
  \<open>closing\<close>, parse a node, expect a comma, append the node. \<open>entriesLoop\<close> is the loop
  over the entries of an object after the first, and \<open>postfixLoop\<close> the loop of
  \<open>nextNode\<close> after its first atom.
\<close>

function (sequential) parseMaybeAssignment :: "(string \<Rightarrow> numError + float64) \<Rightarrow> nat \<Rightarrow> astNode \<Rightarrow> parser \<Rightarrow> (astNode \<times> parser) res"
  and parseAtom :: "(string \<Rightarrow> numError + float64) \<Rightarrow> nat \<Rightarrow> parser \<Rightarrow> (astNode \<times> parser) res"
  and itemsLoop :: "(string \<Rightarrow> numError + float64) \<Rightarrow> nat \<Rightarrow> tokKind \<Rightarrow> astNode list \<Rightarrow> parser \<Rightarrow> (astNode list \<times> parser) res"
  and entriesLoop :: "(string \<Rightarrow> numError + float64) \<Rightarrow> nat \<Rightarrow> objectEntryNode list \<Rightarrow> parser \<Rightarrow> (objectEntryNode list \<times> parser) res"
  and nextNode :: "(string \<Rightarrow> numError + float64) \<Rightarrow> nat \<Rightarrow> parser \<Rightarrow> (astNode \<times> parser) res"
  and postfixLoop :: "(string \<Rightarrow> numError + float64) \<Rightarrow> nat \<Rightarrow> astNode \<Rightarrow> parser \<Rightarrow> (astNode \<times> parser) res"
where
  "parseMaybeAssignment pf 0 left p = OutOfFuel"
| "parseMaybeAssignment pf (Suc n) left p =
     bindR (peek p) (\<lambda>t.
       if kind t \<noteq> assign \<and> kind t \<noteq> nonlocalAssign then Ok (left, p)
       else bindR (nextTok p) (\<lambda>(t, p).
         bindR (nextNode pf n p) (\<lambda>(right, p).
           Ok (assignmentNode (kind t = assign) left right, p))))"
| "parseAtom pf 0 p = OutOfFuel"
| "parseAtom pf (Suc n) p =
     bindR (nextTok p) (\<lambda>(tok, p).
       if kind tok = qmark then Ok (nullNode, p)
       else if kind tok = stringLiteral then Ok (stringNode (payload tok), p)
       else if kind tok = numberLiteral then
         (if CHR ''.'' \<in> set (payload tok)
          then (case pf (payload tok) of
                  Inl e \<Rightarrow> Error (mkParseError (NumberError e))
                | Inr f \<Rightarrow> Ok (numberNode False 0 f, p))
          else (case ParseInt (payload tok) of
                  Inl e \<Rightarrow> Error (mkParseError (NumberError e))
                | Inr i \<Rightarrow> Ok (numberNode True i 0, p)))
       else if kind tok = trueLiteral then Ok (booleanNode True, p)
       else if kind tok = falseLiteral then Ok (booleanNode False, p)
       else if kind tok = colon then
         bindR (peek p) (\<lambda>t.
           if kind t = identifier
           then bindR (nextTok p) (\<lambda>(t, p). Ok (atomNode (payload t), p))
           else Error (mkParseError (ExpectedIdentifierAfterColon t)))
       else if kind tok = leftBracket then
         bindR (itemsLoop pf n rightBracket [] p) (\<lambda>(itemNodes, p).
           bindR (expect rightBracket p) (\<lambda>(_, p).
             parseMaybeAssignment pf n (listNode itemNodes) p))
       else if kind tok = leftBrace then
         bindR (peek p) (\<lambda>t.
           if kind t = rightBrace
           then bindR (nextTok p) (\<lambda>(_, p). Ok (objectNode [], p))
           else bindR (nextNode pf n p) (\<lambda>(firstExpr, p).
             if isEOF p then Error (mkParseError UnexpectedEOFInBlockOrObject)
             else bindR (peek p) (\<lambda>t.
               if kind t = colon
               then bindR (nextTok p) (\<lambda>(_, p).
                      bindR (nextNode pf n p) (\<lambda>(valExpr, p).
                        bindR (expect comma p) (\<lambda>(_, p).
                          bindR (entriesLoop pf n [objectEntryNode firstExpr valExpr] p) (\<lambda>(entries, p).
                            bindR (expect rightBrace p) (\<lambda>(_, p).
                              parseMaybeAssignment pf n (objectNode entries) p)))))
               else bindR (expect comma p) (\<lambda>(_, p).
                      bindR (itemsLoop pf n rightBrace [firstExpr] p) (\<lambda>(exprs, p).
                        bindR (expect rightBrace p) (\<lambda>(_, p).
                          Ok (blockNode exprs, p)))))))
       else if kind tok = fnKeyword then
         bindR (peek p) (\<lambda>t.
           bindR (if kind t = identifier
                  then bindR (nextTok p) (\<lambda>(t, p). Ok (payload t, p))
                  else Ok ([], p)) (\<lambda>(name, p).
             bindR (peek p) (\<lambda>t.
               bindR (if kind t = leftParen
                      then bindR (nextTok p) (\<lambda>(_, p).
                             bindR (fnArgsLoop n [] p) (\<lambda>(argsRest, p).
                               bindR (expect rightParen p) (\<lambda>(_, p). Ok (argsRest, p))))
                      else Ok (([], []), p)) (\<lambda>((args, restArg), p).
                 bindR (peek p) (\<lambda>t.
                   bindR (if kind t = leftBrace
                          then bindR (peekAhead 1 p) (\<lambda>t1. Ok (kind t1 = rightBrace))
                          else Ok False) (\<lambda>emptyBody.
                     bindR (if emptyBody
                            then bindR (nextTok p) (\<lambda>(_, p).
                                   bindR (nextTok p) (\<lambda>(_, p). Ok (blockNode [], p)))
                            else nextNode pf n p) (\<lambda>(body, p).
                       Ok (fnNode name args restArg body, p))))))))
       else if kind tok = underscore then Ok (emptyNode, p)
       else if kind tok = identifier then
         parseMaybeAssignment pf n (identifierNode (payload tok)) p
       else if kind tok = minus_tok \<or> kind tok = exclam then
         bindR (nextNode pf n p) (\<lambda>(right, p). Ok (unaryNode (kind tok) right, p))
       else if kind tok = ifKeyword then Ok (booleanNode False, p)
       else if kind tok = withKeyword then Ok (booleanNode False, p)
       else if kind tok = leftParen then
         bindR (itemsLoop pf n rightParen [] p) (\<lambda>(exprs, p).
           bindR (expect rightParen p) (\<lambda>(_, p). Ok (blockNode exprs, p)))
       else Ok (booleanNode False, p))"
| "itemsLoop pf 0 closing acc p = OutOfFuel"
| "itemsLoop pf (Suc n) closing acc p =
     (if isEOF p then Ok (acc, p)
      else bindR (peek p) (\<lambda>t.
        if kind t = closing then Ok (acc, p)
        else bindR (nextNode pf n p) (\<lambda>(node, p).
          bindR (expect comma p) (\<lambda>(_, p).
            itemsLoop pf n closing (acc @ [node]) p))))"
| "entriesLoop pf 0 entries p = OutOfFuel"
| "entriesLoop pf (Suc n) entries p =
     (if isEOF p then Ok (entries, p)
      else bindR (peek p) (\<lambda>t.
        if kind t = rightBrace then Ok (entries, p)
        else bindR (nextNode pf n p) (\<lambda>(key, p).
          bindR (expect colon p) (\<lambda>(_, p).
            bindR (nextNode pf n p) (\<lambda>(val, p).
              bindR (expect comma p) (\<lambda>(_, p).
                entriesLoop pf n (entries @ [objectEntryNode key val]) p))))))"
| "nextNode pf 0 p = OutOfFuel"
| "nextNode pf (Suc n) p =
     bindR (parseAtom pf n p) (\<lambda>(node, p). postfixLoop pf n node p)"
| "postfixLoop pf 0 node p = OutOfFuel"
| "postfixLoop pf (Suc n) node p =
     (if isEOF p then Ok (node, p)
      else bindR (peek p) (\<lambda>t.
        if kind t = comma then Ok (node, p)
        else if kind t = dot then
          bindR (nextTok p) (\<lambda>(_, p).
            bindR (parseAtom pf n p) (\<lambda>(right, p).
              postfixLoop pf n (propertyAccessNode node right) p))
        else if kind t = leftParen then
          bindR (nextTok p) (\<lambda>(_, p).
            bindR (itemsLoop pf n rightParen [] p) (\<lambda>(args, p).
              bindR (expect rightParen p) (\<lambda>(_, p).
                postfixLoop pf n (fnCallNode node args) p)))
        else if kind t \<in> {plus_tok, minus_tok, times_tok, divide_tok, modulus,
                           greater_tok, less_tok, eq_tok, geq, leq}
          then postfixLoop pf n node p
        else if kind t = colon then Ok (node, p)
        else if kind t \<in> {rightParen, rightBracket, rightBrace} then Ok (node, p)
        else postfixLoop pf n node p))"
  by pat_completeness auto

termination
  by (relation "measure (\<lambda>x. case x of
        Inl (Inl (pf, n, l, p)) \<Rightarrow> n
      | Inl (Inr (Inl (pf, n, p))) \<Rightarrow> n
      | Inl (Inr (Inr (pf, n, c, acc, p))) \<Rightarrow> n
      | Inr (Inl (pf, n, es, p)) \<Rightarrow> n
      | Inr (Inr (Inl (pf, n, p))) \<Rightarrow> n
      | Inr (Inr (Inr (pf, n, node, p))) \<Rightarrow> n)") simp_all

text \<open>
  \<open>parse\<close> returns the pair of the source: the nodes parsed so far and the error, if
  any. The loop stops at the first error.
\<close>

fun parseLoop :: "(string \<Rightarrow> numError + float64) \<Rightarrow> nat \<Rightarrow> astNode list \<Rightarrow> parser \<Rightarrow> (astNode list \<times> parseError option) res" where
  "parseLoop pf 0 nodes p = OutOfFuel"
| "parseLoop pf (Suc n) nodes p =
     (if isEOF p then Ok (nodes, None)
      else (case nextNode pf n p of
          Error e \<Rightarrow> Ok (nodes, Some e)
        | Panic m \<Rightarrow> Panic m
        | OutOfFuel \<Rightarrow> OutOfFuel
        | Ok (node, p) \<Rightarrow>
            (case expect comma p of
               Error e \<Rightarrow> Ok (nodes, Some e)
             | Panic m \<Rightarrow> Panic m
             | OutOfFuel \<Rightarrow> OutOfFuel
             | Ok (_, p) \<Rightarrow> parseLoop pf n (nodes @ [node]) p)))"

definition parse :: "(string \<Rightarrow> numError + float64) \<Rightarrow> nat \<Rightarrow> parser \<Rightarrow> (astNode list \<times> parseError option) res" where
  "parse pf n p = parseLoop pf n [] p"

text \<open>
  Two answers of one call, the second with more fuel, agree when the first is either
  out of fuel or the same as the second.
\<close>

definition fuelStable :: "'a res \<Rightarrow> 'a res \<Rightarrow> bool" where
  "fuelStable a b \<longleftrightarrow> (a = OutOfFuel \<or> b = a)"

section \<open>Concrete tokens\<close>

text \<open>The Go literal \<open>token{kind: k, payload: s}\<close>, and a \<open>ParseFloat\<close> that accepts nothing,
  for inputs without float literals.\<close>

definition mkToken :: "tokKind \<Rightarrow> string \<Rightarrow> token" where
  "mkToken k s = \<lparr>kind = k, payload = s, pos = zeroPos\<rparr>"

definition noFloats :: "string \<Rightarrow> numError + float64" where
  "noFloats s = Inl (ErrSyntax s)"

section \<open>Properties of the parser\<close>

subsection \<open>Fuel\<close>

text \<open>
  More fuel never changes an answer: once a call has returned, failed or panicked with
  some fuel, it does the same with any larger amount. An answer computed with a
  concrete amount of fuel is therefore the answer of the source.
\<close>

lemma fuelStable_refl: "fuelStable a a"
  by (simp add: fuelStable_def)

lemma fuelStable_OutOfFuel: "fuelStable OutOfFuel b"
  by (simp add: fuelStable_def)

lemma fuelStable_bindR:
  "fuelStable m m' \<Longrightarrow> (\<And>x. fuelStable (f x) (f' x)) \<Longrightarrow> fuelStable (bindR m f) (bindR m' f')"
  by (cases m) (auto simp add: fuelStable_def)

lemma fuelStable_if:
  "(c \<Longrightarrow> fuelStable a a') \<Longrightarrow> (\<not> c \<Longrightarrow> fuelStable b b') \<Longrightarrow>
   fuelStable (if c then a else b) (if c then a' else b')"
  by simp

lemma fuelStable_case_prod:
  "(\<And>a b. fuelStable (f a b) (g a b)) \<Longrightarrow>
   fuelStable (case x of (a, b) \<Rightarrow> f a b) (case x of (a, b) \<Rightarrow> g a b)"
  by (cases x) simp

lemma fuelStable_case_prod_app:
  "(\<And>a b. fuelStable (f a b c) (g a b c)) \<Longrightarrow>
   fuelStable ((case x of (a, b) \<Rightarrow> f a b) c) ((case x of (a, b) \<Rightarrow> g a b) c)"
  by (cases x) simp

lemma fuelStable_eq: "a = a' \<Longrightarrow> b = b' \<Longrightarrow> fuelStable a' b' \<Longrightarrow> fuelStable a b"
  by simp

lemma fnArgsLoop_fuel: "fuelStable (fnArgsLoop n args p) (fnArgsLoop (Suc n) args p)"
proof (induction n arbitrary: args p)
  case 0
  show ?case by (simp add: fuelStable_OutOfFuel del: fnArgsLoop.simps(2))
next
  case (Suc n)
  show ?case
    by (rule fuelStable_eq [OF fnArgsLoop.simps(2) fnArgsLoop.simps(2)])
       (intro fuelStable_refl Suc.IH fuelStable_bindR fuelStable_if fuelStable_case_prod)
qed

lemma parser_fuel:
  "(\<forall>left p. fuelStable (parseMaybeAssignment pf n left p) (parseMaybeAssignment pf (Suc n) left p))
 \<and> (\<forall>p. fuelStable (parseAtom pf n p) (parseAtom pf (Suc n) p))
 \<and> (\<forall>closing acc p. fuelStable (itemsLoop pf n closing acc p) (itemsLoop pf (Suc n) closing acc p))
 \<and> (\<forall>entries p. fuelStable (entriesLoop pf n entries p) (entriesLoop pf (Suc n) entries p))
 \<and> (\<forall>p. fuelStable (nextNode pf n p) (nextNode pf (Suc n) p))
 \<and> (\<forall>node p. fuelStable (postfixLoop pf n node p) (postfixLoop pf (Suc n) node p))"
proof (induction n)
  case 0
  show ?case
    by (simp add: fuelStable_OutOfFuel
        del: parseMaybeAssignment.simps(2) parseAtom.simps(2) itemsLoop.simps(2)
          entriesLoop.simps(2) nextNode.simps(2) postfixLoop.simps(2))
next
  case (Suc n)
  then have ih:
    "\<And>left p. fuelStable (parseMaybeAssignment pf n left p) (parseMaybeAssignment pf (Suc n) left p)"
    "\<And>p. fuelStable (parseAtom pf n p) (parseAtom pf (Suc n) p)"
    "\<And>closing acc p. fuelStable (itemsLoop pf n closing acc p) (itemsLoop pf (Suc n) closing acc p)"
    "\<And>entries p. fuelStable (entriesLoop pf n entries p) (entriesLoop pf (Suc n) entries p)"
    "\<And>p. fuelStable (nextNode pf n p) (nextNode pf (Suc n) p)"
    "\<And>node p. fuelStable (postfixLoop pf n node p) (postfixLoop pf (Suc n) node p)"
    by blast+
  note rules = fuelStable_refl ih fnArgsLoop_fuel fuelStable_bindR fuelStable_if fuelStable_case_prod
    fuelStable_case_prod_app
  have a: "fuelStable (parseMaybeAssignment pf (Suc n) left p)
             (parseMaybeAssignment pf (Suc (Suc n)) left p)" for left p
    by (rule fuelStable_eq [OF parseMaybeAssignment.simps(2) parseMaybeAssignment.simps(2)])
       (intro rules)
  have b: "fuelStable (parseAtom pf (Suc n) p) (parseAtom pf (Suc (Suc n)) p)" for p
    by (rule fuelStable_eq [OF parseAtom.simps(2) parseAtom.simps(2)]) (intro rules)
  have c: "fuelStable (itemsLoop pf (Suc n) closing acc p)
             (itemsLoop pf (Suc (Suc n)) closing acc p)" for closing acc p
    by (rule fuelStable_eq [OF itemsLoop.simps(2) itemsLoop.simps(2)]) (intro rules)
  have d: "fuelStable (entriesLoop pf (Suc n) entries p)
             (entriesLoop pf (Suc (Suc n)) entries p)" for entries p
    by (rule fuelStable_eq [OF entriesLoop.simps(2) entriesLoop.simps(2)]) (intro rules)
  have e: "fuelStable (nextNode pf (Suc n) p) (nextNode pf (Suc (Suc n)) p)" for p
    by (rule fuelStable_eq [OF nextNode.simps(2) nextNode.simps(2)]) (intro rules)
  have f: "fuelStable (postfixLoop pf (Suc n) node p) (postfixLoop pf (Suc (Suc n)) node p)"
    for node p
    by (rule fuelStable_eq [OF postfixLoop.simps(2) postfixLoop.simps(2)]) (intro rules)
  from a b c d e f show ?case by blast
qed

lemma nextNode_fuel:
  "nextNode pf n p \<noteq> OutOfFuel \<Longrightarrow> nextNode pf (Suc n) p = nextNode pf n p"
  using parser_fuel [of pf n] by (auto simp add: fuelStable_def simp del: nextNode.simps)

lemma parseLoop_fuel:
  "parseLoop pf n nodes p \<noteq> OutOfFuel \<Longrightarrow> parseLoop pf (Suc n) nodes p = parseLoop pf n nodes p"
proof (induction n arbitrary: nodes p)
  case 0
  then show ?case by simp
next
  case (Suc n)
  show ?case
  proof (cases "isEOF p")
    case True
    then show ?thesis by simp
  next
    case False
    from Suc.prems False have nn: "nextNode pf n p \<noteq> OutOfFuel"
      by (auto simp del: nextNode.simps)
    then have same: "nextNode pf (Suc n) p = nextNode pf n p"
      by (rule nextNode_fuel)
    show ?thesis
    proof (cases "nextNode pf n p")
      case (Ok r)
      obtain node q where r: "r = (node, q)" by (cases r)
      show ?thesis
      proof (cases "expect comma q")
        case ok2: (Ok r2)
        obtain t q2 where r2: "r2 = (t, q2)" by (cases r2)
        from Suc.prems False Ok r ok2 r2
        have "parseLoop pf n (nodes @ [node]) q2 \<noteq> OutOfFuel"
          by (simp del: nextNode.simps)
        from Suc.IH [OF this] False Ok r ok2 r2 same show ?thesis
          by (simp del: nextNode.simps parseLoop.simps(2)
              add: parseLoop.simps(2) [of pf "Suc n"] parseLoop.simps(2) [of pf n])
      qed (use False Ok r same in \<open>simp_all del: nextNode.simps\<close>)
    qed (use False same nn in \<open>simp_all del: nextNode.simps\<close>)
  qed
qed

lemma parse_fuel:
  "parse pf n p \<noteq> OutOfFuel \<Longrightarrow> parse pf (n + k) p = parse pf n p"
proof (induction k)
  case 0
  show ?case by simp
next
  case (Suc k)
  then have "parseLoop pf (n + k) [] p \<noteq> OutOfFuel"
    by (simp add: parse_def)
  from parseLoop_fuel [OF this] Suc show ?case
    by (simp add: parse_def)
qed

subsection \<open>The postfix loop\<close>

text \<open>
  In the loop of \<open>nextNode\<close> only a dot and a left parenthesis consume input, and only
  the end of input, a comma, a colon and the three right delimiters leave the loop. On
  any other token an iteration changes nothing, so the loop never ends.
\<close>

lemma postfixLoop_stuck:
  assumes "index p < length (tokens p)"
    and "kind (tokens p ! index p) \<notin>
           {comma, dot, leftParen, colon, rightParen, rightBracket, rightBrace}"
  shows "postfixLoop pf n node p = OutOfFuel"
  using assms by (induction n) (simp_all add: isEOF_def peek_def)

lemma nextNode_stuck_after_atom:
  assumes atom: "\<And>m. parseAtom pf (Suc m) p = Ok (node, p')"
    and "index p' < length (tokens p')"
    and "kind (tokens p' ! index p') \<notin>
           {comma, dot, leftParen, colon, rightParen, rightBracket, rightBrace}"
  shows "nextNode pf n p = OutOfFuel"
proof (cases n)
  case 0
  then show ?thesis by simp
next
  case (Suc k)
  show ?thesis
  proof (cases k)
    case 0
    with Suc show ?thesis by simp
  next
    case (Suc j)
    have "postfixLoop pf k node p' = OutOfFuel"
      using assms(2,3) by (rule postfixLoop_stuck)
    with Suc \<open>n = Suc k\<close> atom [of j] show ?thesis
      by (simp del: parseAtom.simps postfixLoop.simps)
  qed
qed

lemma parseLoop_stuck:
  assumes "\<not> isEOF p" and "\<And>m. nextNode pf m p = OutOfFuel"
  shows "parseLoop pf n nodes p = OutOfFuel"
  using assms by (cases n) (simp_all del: nextNode.simps)

subsection \<open>Atoms\<close>

text \<open>
  C10. When \<open>parseAtom\<close> is called at a colon token and the token after the colon is
  not an identifier token (a keyword token, for instance), \<open>parseAtom\<close> returns the
  parse error "Expected identifier after ':'" and returns no node, whatever the fuel.
\<close>

theorem parseAtom_colon_requires_identifier:
  assumes "index p + 1 < length (tokens p)"
    and "kind (tokens p ! index p) = colon"
    and "kind (tokens p ! (index p + 1)) \<noteq> identifier"
  shows "parseAtom pf (Suc n) p =
           Error (mkParseError (ExpectedIdentifierAfterColon (tokens p ! (index p + 1))))
         \<and> (\<forall>m r. parseAtom pf m p \<noteq> Ok r)"
proof -
  have step: "parseAtom pf (Suc k) p =
      Error (mkParseError (ExpectedIdentifierAfterColon (tokens p ! (index p + 1))))" for k
    using assms by (simp add: nextTok_def peek_def)
  have "parseAtom pf m p \<noteq> Ok r" for m r
  proof (cases m)
    case 0
    then show ?thesis by simp
  next
    case (Suc k)
    then show ?thesis using step [of k] by (simp del: parseAtom.simps)
  qed
  with step show ?thesis by blast
qed

theorem parseAtom_colon_requires_identifier_witness:
  "parseAtom noFloats (Suc 0) (newParser [tokenOfKind colon, tokenOfKind ifKeyword]) =
     Error (mkParseError (ExpectedIdentifierAfterColon (tokenOfKind ifKeyword)))
   \<and> (\<forall>m r. parseAtom noFloats m (newParser [tokenOfKind colon, tokenOfKind ifKeyword]) \<noteq> Ok r)"
  using parseAtom_colon_requires_identifier
    [of "newParser [tokenOfKind colon, tokenOfKind ifKeyword]" noFloats 0]
  by (simp add: newParser_def tokenOfKind_def)

lemma ParseInt_1: "ParseInt ''1'' = Inr 1"
  by (simp add: ParseInt_def isDigit_def)

subsection \<open>Programs the parser does not finish\<close>

text \<open>
  C1. The program \<open>1 + 2\<close> is the number \<open>1\<close>, the token \<open>plus\<close> and the number \<open>2\<close>
  (whatever tokens follow). \<open>parse\<close> builds no binary node for it and returns nothing:
  after the atom \<open>1\<close> the postfix loop of \<open>nextNode\<close> stays at the \<open>plus\<close> token, so
  that no amount of fuel gives an answer and no value 3 is ever produced.
\<close>

theorem parse_one_plus_two_never_returns:
  "parse pf n (newParser (mkToken numberLiteral ''1'' # tokenOfKind plus_tok # rest)) = OutOfFuel"
proof -
  let ?p = "newParser (mkToken numberLiteral ''1'' # tokenOfKind plus_tok # rest)"
  have atom: "parseAtom pf (Suc m) ?p = Ok (numberNode True 1 0, ?p\<lparr>index := 1\<rparr>)" for m
    by (simp add: newParser_def mkToken_def nextTok_def ParseInt_1)
  have "nextNode pf m ?p = OutOfFuel" for m
    by (rule nextNode_stuck_after_atom [OF atom])
       (simp_all add: newParser_def tokenOfKind_def)
  then have "parseLoop pf n [] ?p = OutOfFuel"
    by (intro parseLoop_stuck) (simp_all add: newParser_def isEOF_def)
  then show ?thesis by (simp add: parse_def)
qed

text \<open>
  C7. The program \<open>if 12 { 10 -> :a, 11, 12 -> :b, _ -> :c }\<close> starts with the keyword
  \<open>if\<close> and the number \<open>12\<close>. \<open>parseAtom\<close> has no code for \<open>if\<close>: it returns the
  boolean node \<open>false\<close>, and the postfix loop then stays at the number token. \<open>parse\<close>
  returns nothing for any amount of fuel, so no branch is ever tested and the atom
  \<open>:b\<close> is not produced.
\<close>

theorem parse_if_expression_never_returns:
  "parse pf n (newParser (tokenOfKind ifKeyword # mkToken numberLiteral ''12'' # rest)) = OutOfFuel"
proof -
  let ?p = "newParser (tokenOfKind ifKeyword # mkToken numberLiteral ''12'' # rest)"
  have atom: "parseAtom pf (Suc m) ?p = Ok (booleanNode False, ?p\<lparr>index := 1\<rparr>)" for m
    by (simp add: newParser_def tokenOfKind_def nextTok_def)
  have "nextNode pf m ?p = OutOfFuel" for m
    by (rule nextNode_stuck_after_atom [OF atom])
       (simp_all add: newParser_def mkToken_def)
  then have "parseLoop pf n [] ?p = OutOfFuel"
    by (intro parseLoop_stuck) (simp_all add: newParser_def isEOF_def)
  then show ?thesis by (simp add: parse_def)
qed

text \<open>
  C3. \<open>parse\<close> does not terminate on every token sequence. When the postfix loop peeks
  an arithmetic, comparison, pipe or push operator, an iteration leaves the node and the
  parser as they were (the loop with one more unit of fuel is the loop itself), and
  \<open>parse\<close> of an atom followed by such an operator is out of fuel for every fuel.
\<close>

theorem postfix_loop_makes_no_progress:
  assumes "k \<in> {plus_tok, minus_tok, times_tok, divide_tok, modulus,
                 eq_tok, geq, leq, greater_tok, less_tok, neq, pipeArrow, pushArrow}"
  shows "parse pf n (newParser (tokenOfKind qmark # tokenOfKind k # rest)) = OutOfFuel
       \<and> (index p < length (tokens p) \<and> kind (tokens p ! index p) = k \<longrightarrow>
            postfixLoop pf (Suc n) node p = postfixLoop pf n node p)"
proof
  let ?p = "newParser (tokenOfKind qmark # tokenOfKind k # rest)"
  have atom: "parseAtom pf (Suc m) ?p = Ok (nullNode, ?p\<lparr>index := 1\<rparr>)" for m
    by (simp add: newParser_def tokenOfKind_def nextTok_def)
  have "nextNode pf m ?p = OutOfFuel" for m
    using assms
    by (intro nextNode_stuck_after_atom [OF atom])
       (auto simp add: newParser_def tokenOfKind_def)
  then have "parseLoop pf n [] ?p = OutOfFuel"
    by (intro parseLoop_stuck) (simp_all add: newParser_def isEOF_def)
  then show "parse pf n ?p = OutOfFuel" by (simp add: parse_def)
next
  show "index p < length (tokens p) \<and> kind (tokens p ! index p) = k \<longrightarrow>
            postfixLoop pf (Suc n) node p = postfixLoop pf n node p"
    using assms by (auto simp add: isEOF_def peek_def)
qed

theorem postfix_loop_makes_no_progress_witness:
  "parse noFloats 7 (newParser [tokenOfKind qmark, tokenOfKind plus_tok, tokenOfKind qmark]) = OutOfFuel
   \<and> postfixLoop noFloats (Suc 7) nullNode (newParser [tokenOfKind plus_tok]) =
       postfixLoop noFloats 7 nullNode (newParser [tokenOfKind plus_tok])"
  using postfix_loop_makes_no_progress
    [of plus_tok noFloats 7 "[tokenOfKind qmark]" "newParser [tokenOfKind plus_tok]" nullNode]
  by (simp add: newParser_def tokenOfKind_def del: postfixLoop.simps)

subsection \<open>Errors and panics\<close>

text \<open>
  C2. An unexpected token does not always give a parse error with a position. At a
  right bracket where an atom should start, \<open>parseAtom\<close> makes up the boolean node
  \<open>false\<close> and \<open>parse\<close> returns it with no error; \<open>expect\<close> panics on a token of
  another kind instead of returning an error; and the error for an unclosed bracket
  at line 3, column 7 carries the zero position.
\<close>

theorem parser_fabricates_nodes_and_panics:
  "parse pf (Suc (Suc (Suc (Suc n)))) (newParser [tokenOfKind rightBracket, tokenOfKind comma])
     = Ok ([booleanNode False], None)
   \<and> expect comma (newParser [tokenOfKind colon]) = Panic (ExpectedGot comma (tokenOfKind colon))
   \<and> parse pf (Suc (Suc (Suc (Suc n))))
       (newParser [\<lparr>kind = leftBracket, payload = [], pos = \<lparr>fileName = ''a.oak'', line = 3, col = 7\<rparr>\<rparr>])
     = Ok ([], Some \<lparr>reason = UnexpectedEOFExpected rightBracket, errPos = zeroPos\<rparr>)"
  by (simp add: parse_def newParser_def tokenOfKind_def isEOF_def peek_def nextTok_def
      expect_def mkParseError_def)

text \<open>
  C9. \<open>parse\<close> can panic. On the tokens of \<open>a: 1,\<close> the call \<open>expect(comma)\<close> meets the
  colon and panics; on the single identifier \<open>x\<close> the \<open>peek\<close> of \<open>parseMaybeAssignment\<close>
  reads past the end of the tokens; on \<open>fn {\<close> the call \<open>peekAhead(1)\<close> reads index 2
  of two tokens.
\<close>

theorem parse_can_panic:
  "parse pf (Suc (Suc (Suc (Suc (Suc n)))))
      (newParser [mkToken identifier ''a'', tokenOfKind colon, mkToken numberLiteral ''1'', tokenOfKind comma])
     = Panic (ExpectedGot comma (tokenOfKind colon))
   \<and> parse pf (Suc (Suc (Suc (Suc n)))) (newParser [mkToken identifier ''x''])
     = Panic (IndexOutOfRange 1 1)
   \<and> parse pf (Suc (Suc (Suc (Suc n)))) (newParser [tokenOfKind fnKeyword, tokenOfKind leftBrace])
     = Panic (IndexOutOfRange 2 2)"
  by (simp add: parse_def newParser_def tokenOfKind_def mkToken_def isEOF_def peek_def nextTok_def
      expect_def peekAhead_def)

subsection \<open>The comma after a top-level expression\<close>

text \<open>
  After every top-level node \<open>parse\<close> calls \<open>expect(comma)\<close>. When \<open>nextNode\<close> has
  returned a node and no token is left, that call returns the error "Unexpected end of
  input, expected ,", and \<open>parse\<close> returns it with the nodes parsed before; the node of
  the last expression is not among them.
\<close>

lemma parseLoop_end_of_input_after_node:
  assumes "\<not> isEOF p" and "nextNode pf n p = Ok (node, p')" and "isEOF p'"
  shows "parseLoop pf (Suc n) nodes p =
           Ok (nodes, Some (mkParseError (UnexpectedEOFExpected comma)))"
  using assms by (simp add: expect_def del: nextNode.simps)

text \<open>
  C4. \<open>parse\<close> does not tolerate a token sequence that ends immediately after a
  complete top-level expression. The programs \<open>?\<close> and \<open>_\<close> are one token each, with
  no comma after it; for both \<open>parse\<close> returns no node but the error "Unexpected end
  of input, expected ,", with any fuel from three units on.
\<close>

theorem parse_rejects_missing_trailing_comma:
  "parse pf (Suc (Suc (Suc n))) (newParser [tokenOfKind qmark]) =
     Ok ([], Some (mkParseError (UnexpectedEOFExpected comma)))
   \<and> parse pf (Suc (Suc (Suc n))) (newParser [tokenOfKind underscore]) =
     Ok ([], Some (mkParseError (UnexpectedEOFExpected comma)))"
  by (simp add: parse_def newParser_def tokenOfKind_def isEOF_def peek_def nextTok_def
      expect_def)

subsection \<open>Empty braces\<close>

text \<open>
  C6. When \<open>parseAtom\<close> is called at a left brace that a right brace follows
  immediately, it returns the empty object node. The one exception is the body of a
  \<open>fn\<close>. Let \<open>parseAtom\<close> be called at the keyword \<open>fn\<close> (parser \<open>f\<close>); let \<open>h\<close> be
  the parser after the optional name, and \<open>q\<close> the parser after the optional
  parenthesised argument list, whatever arguments and rest argument the loop over the
  list returns. If the two braces stand at \<open>q\<close>, \<open>parseAtom\<close> returns the function
  node with that name, those arguments and the empty block as its body, not the empty
  object.
\<close>

theorem empty_braces_object_or_fn_block:
  "(kind (tokens p ! index p) = leftBrace \<and> index p + 1 < length (tokens p)
      \<and> kind (tokens p ! (index p + 1)) = rightBrace \<longrightarrow>
      parseAtom pf (Suc n) p = Ok (objectNode [], p\<lparr>index := index p + 2\<rparr>))
   \<and> (kind (tokens f ! index f) = fnKeyword \<and> index f + 1 < length (tokens f)
      \<and> ((kind (tokens f ! (index f + 1)) \<noteq> identifier \<and> name = []
             \<and> h = f\<lparr>index := index f + 1\<rparr>)
          \<or> (kind (tokens f ! (index f + 1)) = identifier
             \<and> name = payload (tokens f ! (index f + 1)) \<and> h = f\<lparr>index := index f + 2\<rparr>))
      \<and> index h < length (tokens h)
      \<and> ((kind (tokens h ! index h) \<noteq> leftParen \<and> args = [] \<and> restArg = [] \<and> q = h)
          \<or> (kind (tokens h ! index h) = leftParen
             \<and> fnArgsLoop n [] (h\<lparr>index := index h + 1\<rparr>) = Ok ((args, restArg), qr)
             \<and> expect rightParen qr = Ok (t, q)))
      \<and> kind (tokens q ! index q) = leftBrace \<and> index q + 1 < length (tokens q)
      \<and> kind (tokens q ! (index q + 1)) = rightBrace \<longrightarrow>
      parseAtom pf (Suc n) f =
        Ok (fnNode name args restArg (blockNode []), q\<lparr>index := index q + 2\<rparr>))"
proof (intro conjI impI)
  assume "kind (tokens p ! index p) = leftBrace \<and> index p + 1 < length (tokens p)
      \<and> kind (tokens p ! (index p + 1)) = rightBrace"
  then show "parseAtom pf (Suc n) p = Ok (objectNode [], p\<lparr>index := index p + 2\<rparr>)"
    by (simp add: nextTok_def peek_def)
next
  assume a: "kind (tokens f ! index f) = fnKeyword \<and> index f + 1 < length (tokens f)
      \<and> ((kind (tokens f ! (index f + 1)) \<noteq> identifier \<and> name = []
             \<and> h = f\<lparr>index := index f + 1\<rparr>)
          \<or> (kind (tokens f ! (index f + 1)) = identifier
             \<and> name = payload (tokens f ! (index f + 1)) \<and> h = f\<lparr>index := index f + 2\<rparr>))
      \<and> index h < length (tokens h)
      \<and> ((kind (tokens h ! index h) \<noteq> leftParen \<and> args = [] \<and> restArg = [] \<and> q = h)
          \<or> (kind (tokens h ! index h) = leftParen
             \<and> fnArgsLoop n [] (h\<lparr>index := index h + 1\<rparr>) = Ok ((args, restArg), qr)
             \<and> expect rightParen qr = Ok (t, q)))
      \<and> kind (tokens q ! index q) = leftBrace \<and> index q + 1 < length (tokens q)
      \<and> kind (tokens q ! (index q + 1)) = rightBrace"
  then show "parseAtom pf (Suc n) f =
      Ok (fnNode name args restArg (blockNode []), q\<lparr>index := index q + 2\<rparr>)"
    by (elim conjE disjE)
       (simp_all add: nextTok_def peek_def peekAhead_def
          del: nextNode.simps fnArgsLoop.simps)
qed

theorem empty_braces_object_or_fn_block_witness:
  "parseAtom noFloats (Suc 0) (newParser [tokenOfKind leftBrace, tokenOfKind rightBrace])
     = Ok (objectNode [], \<lparr>tokens = [tokenOfKind leftBrace, tokenOfKind rightBrace], index = 2\<rparr>)
   \<and> parseAtom noFloats (Suc 0)
       (newParser [tokenOfKind fnKeyword, tokenOfKind leftBrace, tokenOfKind rightBrace])
     = Ok (fnNode [] [] [] (blockNode []),
           \<lparr>tokens = [tokenOfKind fnKeyword, tokenOfKind leftBrace, tokenOfKind rightBrace],
              index = 3\<rparr>)
   \<and> parseAtom noFloats (Suc 0)
       (newParser [tokenOfKind fnKeyword, mkToken identifier ''do'', tokenOfKind leftBrace,
                   tokenOfKind rightBrace])
     = Ok (fnNode ''do'' [] [] (blockNode []),
           \<lparr>tokens = [tokenOfKind fnKeyword, mkToken identifier ''do'', tokenOfKind leftBrace,
                       tokenOfKind rightBrace], index = 4\<rparr>)
   \<and> parseAtom noFloats (Suc 3)
       (newParser [tokenOfKind fnKeyword, mkToken identifier ''f'', tokenOfKind leftParen,
                   mkToken identifier ''a'', tokenOfKind comma, mkToken identifier ''b'',
                   tokenOfKind comma, tokenOfKind rightParen, tokenOfKind leftBrace,
                   tokenOfKind rightBrace])
     = Ok (fnNode ''f'' [''a'', ''b''] [] (blockNode []),
           \<lparr>tokens = [tokenOfKind fnKeyword, mkToken identifier ''f'', tokenOfKind leftParen,
                   mkToken identifier ''a'', tokenOfKind comma, mkToken identifier ''b'',
                   tokenOfKind comma, tokenOfKind rightParen, tokenOfKind leftBrace,
                   tokenOfKind rightBrace], index = 10\<rparr>)
   \<and> parseAtom noFloats (Suc 1)
       (newParser [tokenOfKind fnKeyword, tokenOfKind leftParen, mkToken identifier ''xs'',
                   tokenOfKind ellipsis, tokenOfKind comma, tokenOfKind rightParen,
                   tokenOfKind leftBrace, tokenOfKind rightBrace])
     = Ok (fnNode [] [] ''xs'' (blockNode []),
           \<lparr>tokens = [tokenOfKind fnKeyword, tokenOfKind leftParen, mkToken identifier ''xs'',
                   tokenOfKind ellipsis, tokenOfKind comma, tokenOfKind rightParen,
                   tokenOfKind leftBrace, tokenOfKind rightBrace], index = 8\<rparr>)
   \<and> parseAtom noFloats (Suc 1)
       (newParser [tokenOfKind fnKeyword, mkToken identifier ''do'', tokenOfKind leftParen,
                   tokenOfKind rightParen, tokenOfKind leftBrace, tokenOfKind rightBrace])
     = Ok (fnNode ''do'' [] [] (blockNode []),
           \<lparr>tokens = [tokenOfKind fnKeyword, mkToken identifier ''do'', tokenOfKind leftParen,
                   tokenOfKind rightParen, tokenOfKind leftBrace, tokenOfKind rightBrace],
              index = 6\<rparr>)"
proof -
  let ?obj = "newParser [tokenOfKind leftBrace, tokenOfKind rightBrace]"
  have w1: "parseAtom noFloats (Suc 0) ?obj = Ok (objectNode [], ?obj\<lparr>index := index ?obj + 2\<rparr>)"
    by (rule empty_braces_object_or_fn_block [THEN conjunct1, THEN mp])
       (simp add: newParser_def tokenOfKind_def)
  let ?f2 = "newParser [tokenOfKind fnKeyword, tokenOfKind leftBrace, tokenOfKind rightBrace]"
  let ?q2 = "?f2\<lparr>index := 1\<rparr>"
  have w2: "parseAtom noFloats (Suc 0) ?f2
     = Ok (fnNode [] [] [] (blockNode []), ?q2\<lparr>index := index ?q2 + 2\<rparr>)"
    by (rule empty_braces_object_or_fn_block
          [where h = ?q2 and qr = ?q2 and t = "tokenOfKind comma",
           THEN conjunct2, THEN mp])
       (simp add: newParser_def tokenOfKind_def)
  let ?f3 = "newParser [tokenOfKind fnKeyword, mkToken identifier ''do'', tokenOfKind leftBrace,
                   tokenOfKind rightBrace]"
  let ?q3 = "?f3\<lparr>index := 2\<rparr>"
  have w3: "parseAtom noFloats (Suc 0) ?f3
     = Ok (fnNode ''do'' [] [] (blockNode []), ?q3\<lparr>index := index ?q3 + 2\<rparr>)"
    by (rule empty_braces_object_or_fn_block
          [where h = ?q3 and qr = ?q3 and t = "tokenOfKind comma",
           THEN conjunct2, THEN mp])
       (simp add: newParser_def tokenOfKind_def mkToken_def eval_nat_numeral)
  let ?f4 = "newParser [tokenOfKind fnKeyword, mkToken identifier ''f'', tokenOfKind leftParen,
                   mkToken identifier ''a'', tokenOfKind comma, mkToken identifier ''b'',
                   tokenOfKind comma, tokenOfKind rightParen, tokenOfKind leftBrace,
                   tokenOfKind rightBrace]"
  let ?q4 = "?f4\<lparr>index := 8\<rparr>"
  have w4: "parseAtom noFloats (Suc 3) ?f4
     = Ok (fnNode ''f'' [''a'', ''b''] [] (blockNode []), ?q4\<lparr>index := index ?q4 + 2\<rparr>)"
    by (rule empty_braces_object_or_fn_block
          [where f = ?f4 and pf = noFloats and n = 3 and name = "''f''"
             and args = "[''a'', ''b'']" and restArg = "[]" and q = ?q4
             and h = "?f4\<lparr>index := 2\<rparr>" and qr = "?f4\<lparr>index := 7\<rparr>"
             and t = "tokenOfKind rightParen", THEN conjunct2, THEN mp])
       (simp add: newParser_def tokenOfKind_def mkToken_def isEOF_def peek_def nextTok_def
          expect_def eval_nat_numeral)
  let ?f5 = "newParser [tokenOfKind fnKeyword, tokenOfKind leftParen, mkToken identifier ''xs'',
                   tokenOfKind ellipsis, tokenOfKind comma, tokenOfKind rightParen,
                   tokenOfKind leftBrace, tokenOfKind rightBrace]"
  let ?q5 = "?f5\<lparr>index := 6\<rparr>"
  have w5: "parseAtom noFloats (Suc 1) ?f5
     = Ok (fnNode [] [] ''xs'' (blockNode []), ?q5\<lparr>index := index ?q5 + 2\<rparr>)"
    by (rule empty_braces_object_or_fn_block
          [where f = ?f5 and pf = noFloats and n = 1 and name = "[]"
             and args = "[]" and restArg = "''xs''" and q = ?q5
             and h = "?f5\<lparr>index := 1\<rparr>" and qr = "?f5\<lparr>index := 5\<rparr>"
             and t = "tokenOfKind rightParen", THEN conjunct2, THEN mp])
       (simp add: newParser_def tokenOfKind_def mkToken_def isEOF_def peek_def nextTok_def
          expect_def eval_nat_numeral)
  let ?f6 = "newParser [tokenOfKind fnKeyword, mkToken identifier ''do'', tokenOfKind leftParen,
                   tokenOfKind rightParen, tokenOfKind leftBrace, tokenOfKind rightBrace]"
  let ?q6 = "?f6\<lparr>index := 4\<rparr>"
  have w6: "parseAtom noFloats (Suc 1) ?f6
     = Ok (fnNode ''do'' [] [] (blockNode []), ?q6\<lparr>index := index ?q6 + 2\<rparr>)"
    by (rule empty_braces_object_or_fn_block
          [where f = ?f6 and pf = noFloats and n = 1 and name = "''do''"
             and args = "[]" and restArg = "[]" and q = ?q6
             and h = "?f6\<lparr>index := 2\<rparr>" and qr = "?f6\<lparr>index := 3\<rparr>"
             and t = "tokenOfKind rightParen", THEN conjunct2, THEN mp])
       (simp add: newParser_def tokenOfKind_def mkToken_def isEOF_def peek_def nextTok_def
          expect_def eval_nat_numeral)
  from w1 w2 w3 w4 w5 w6 show ?thesis
    by (simp add: newParser_def del: parseAtom.simps)
qed

subsection \<open>Blocks and objects\<close>

lemma bindR_eq_Ok: "bindR m f = Ok y \<longleftrightarrow> (\<exists>x. m = Ok x \<and> f x = Ok y)"
  by (cases m) simp_all

lemma parseMaybeAssignment_result:
  assumes "parseMaybeAssignment pf n left p = Ok (node, p')"
  shows "node = left \<or> (\<exists>b r. node = assignmentNode b left r)"
proof (cases n)
  case 0
  with assms show ?thesis by simp
next
  case (Suc k)
  with assms show ?thesis
    by (auto simp add: bindR_eq_Ok split: if_splits)
qed

lemma itemsLoop_extends:
  "itemsLoop pf n closing acc p = Ok (xs, p') \<Longrightarrow> \<exists>ys. xs = acc @ ys"
proof (induction n arbitrary: acc p)
  case 0
  then show ?case by simp
next
  case (Suc n)
  show ?case
  proof (cases "isEOF p")
    case True
    with Suc.prems show ?thesis by simp
  next
    case False
    with Suc.prems obtain t where t: "peek p = Ok t"
      by (auto simp add: bindR_eq_Ok simp del: nextNode.simps)
    show ?thesis
    proof (cases "kind t = closing")
      case True
      with Suc.prems False t show ?thesis by simp
    next
      case nc: False
      with Suc.prems False t obtain node q where
        "itemsLoop pf n closing (acc @ [node]) q = Ok (xs, p')"
        by (auto simp add: bindR_eq_Ok simp del: nextNode.simps)
      from Suc.IH [OF this] show ?thesis by auto
    qed
  qed
qed

lemma entriesLoop_extends:
  "entriesLoop pf n entries p = Ok (xs, p') \<Longrightarrow> \<exists>ys. xs = entries @ ys"
proof (induction n arbitrary: entries p)
  case 0
  then show ?case by simp
next
  case (Suc n)
  show ?case
  proof (cases "isEOF p")
    case True
    with Suc.prems show ?thesis by simp
  next
    case False
    with Suc.prems obtain t where t: "peek p = Ok t"
      by (auto simp add: bindR_eq_Ok simp del: nextNode.simps)
    show ?thesis
    proof (cases "kind t = rightBrace")
      case True
      with Suc.prems False t show ?thesis by simp
    next
      case nc: False
      with Suc.prems False t obtain e q where
        "entriesLoop pf n (entries @ [e]) q = Ok (xs, p')"
        by (auto simp add: bindR_eq_Ok simp del: nextNode.simps)
      from Suc.IH [OF this] show ?thesis by auto
    qed
  qed
qed

text \<open>
  How a non-empty brace form is decided. After the first inner expression, with a token
  \<open>t\<close> left: on a colon every node \<open>parseAtom\<close> returns is an object whose first key
  is the first expression (or an assignment to such an object); on a comma every node
  it returns is a block that starts with the first expression; on any other token the
  block path is taken all the same, and its \<open>expect(comma)\<close> panics.
\<close>

lemma brace_form_paths:
  assumes brace: "kind (tokens p ! index p) = leftBrace"
    and more: "index p + 1 < length (tokens p)"
    and nonempty: "kind (tokens p ! (index p + 1)) \<noteq> rightBrace"
    and first: "nextNode pf n (p\<lparr>index := index p + 1\<rparr>) = Ok (firstExpr, pn)"
    and tok: "index pn < length (tokens pn)"
  shows "(kind (tokens pn ! index pn) = colon \<longrightarrow>
            (\<forall>node p'. parseAtom pf (Suc n) p = Ok (node, p') \<longrightarrow>
               (\<exists>v es. node = objectNode (objectEntryNode firstExpr v # es)
                  \<or> (\<exists>b r. node =
                        assignmentNode b (objectNode (objectEntryNode firstExpr v # es)) r))))
       \<and> (kind (tokens pn ! index pn) = comma \<longrightarrow>
            (\<forall>node p'. parseAtom pf (Suc n) p = Ok (node, p') \<longrightarrow>
               (\<exists>es. node = blockNode (firstExpr # es))))
       \<and> (kind (tokens pn ! index pn) \<noteq> colon \<and> kind (tokens pn ! index pn) \<noteq> comma \<longrightarrow>
            parseAtom pf (Suc n) p = Panic (ExpectedGot comma (tokens pn ! index pn)))"
proof -
  let ?t = "tokens pn ! index pn"
  have unfold: "parseAtom pf (Suc n) p =
      (if kind ?t = colon
       then bindR (nextTok pn) (\<lambda>(_, p).
              bindR (nextNode pf n p) (\<lambda>(valExpr, p).
                bindR (expect comma p) (\<lambda>(_, p).
                  bindR (entriesLoop pf n [objectEntryNode firstExpr valExpr] p) (\<lambda>(entries, p).
                    bindR (expect rightBrace p) (\<lambda>(_, p).
                      parseMaybeAssignment pf n (objectNode entries) p)))))
       else bindR (expect comma pn) (\<lambda>(_, p).
              bindR (itemsLoop pf n rightBrace [firstExpr] p) (\<lambda>(exprs, p).
                bindR (expect rightBrace p) (\<lambda>(_, p).
                  Ok (blockNode exprs, p)))))"
    using assms
    by (simp add: nextTok_def peek_def isEOF_def
        del: nextNode.simps parseMaybeAssignment.simps itemsLoop.simps entriesLoop.simps)
  have obj: "\<exists>v es. node = objectNode (objectEntryNode firstExpr v # es)
                  \<or> (\<exists>b r. node =
                        assignmentNode b (objectNode (objectEntryNode firstExpr v # es)) r)"
    if c: "kind ?t = colon" and ok: "parseAtom pf (Suc n) p = Ok (node, p')" for node p'
  proof -
    from ok c obtain v entries q where
      loop: "\<exists>q'. entriesLoop pf n [objectEntryNode firstExpr v] q = Ok (entries, q')"
      and asg: "\<exists>q'. parseMaybeAssignment pf n (objectNode entries) q' = Ok (node, p')"
      unfolding unfold
      by (auto simp add: bindR_eq_Ok
          simp del: nextNode.simps parseMaybeAssignment.simps itemsLoop.simps entriesLoop.simps)
    from loop obtain es where "entries = objectEntryNode firstExpr v # es"
      by (auto dest: entriesLoop_extends)
    moreover from asg have "node = objectNode entries
        \<or> (\<exists>b r. node = assignmentNode b (objectNode entries) r)"
      by (auto dest: parseMaybeAssignment_result)
    ultimately show ?thesis by blast
  qed
  have blk: "\<exists>es. node = blockNode (firstExpr # es)"
    if c: "kind ?t = comma" and ok: "parseAtom pf (Suc n) p = Ok (node, p')" for node p'
  proof -
    from ok c obtain exprs where
      loop: "\<exists>q q'. itemsLoop pf n rightBrace [firstExpr] q = Ok (exprs, q')"
      and node: "node = blockNode exprs"
      unfolding unfold
      by (auto simp add: bindR_eq_Ok
          simp del: nextNode.simps parseMaybeAssignment.simps itemsLoop.simps entriesLoop.simps)
    from loop obtain es where "exprs = firstExpr # es"
      by (auto dest: itemsLoop_extends)
    with node show ?thesis by blast
  qed
  have pan: "parseAtom pf (Suc n) p = Panic (ExpectedGot comma ?t)"
    if "kind ?t \<noteq> colon" "kind ?t \<noteq> comma"
    unfolding unfold using that tok
    by (simp add: expect_def isEOF_def nextTok_def
        del: nextNode.simps parseMaybeAssignment.simps itemsLoop.simps entriesLoop.simps)
  from obj blk pan show ?thesis by blast
qed

text \<open>
  C5. The brace forms of the tests are not parsed as a block or as an object. In the
  program \<open>x := 3, { x := 10 }, x\<close> the block is a left brace, \<open>x\<close>, \<open>:=\<close>, \<open>10\<close> and a
  right brace: after the first inner expression the next token is no colon, the block
  path is taken, and its \<open>expect(comma)\<close> meets the right brace and panics. In the
  program \<open>a := {a: :aa, b: :bbb}, ...\<close> the object path is taken at the first colon,
  and the \<open>expect(comma)\<close> after the last value meets the right brace and panics. Both
  hold for whatever tokens follow and for any fuel from ten units on.
\<close>

theorem brace_forms_without_comma_panic:
  "parse pf (Suc (Suc (Suc (Suc (Suc (Suc (Suc (Suc (Suc (Suc n))))))))))
     (newParser (mkToken identifier ''x'' # tokenOfKind assign # mkToken numberLiteral ''3''
                 # tokenOfKind comma
                 # tokenOfKind leftBrace # mkToken identifier ''x'' # tokenOfKind assign
                 # mkToken numberLiteral ''10'' # tokenOfKind rightBrace # rest))
     = Panic (ExpectedGot comma (tokenOfKind rightBrace))
   \<and> parse pf (Suc (Suc (Suc (Suc (Suc (Suc (Suc (Suc (Suc (Suc n))))))))))
     (newParser (mkToken identifier ''a'' # tokenOfKind assign
                 # tokenOfKind leftBrace # mkToken identifier ''a'' # tokenOfKind colon
                 # tokenOfKind colon # mkToken identifier ''aa'' # tokenOfKind comma
                 # mkToken identifier ''b'' # tokenOfKind colon
                 # tokenOfKind colon # mkToken identifier ''bbb'' # tokenOfKind rightBrace
                 # rest))
     = Panic (ExpectedGot comma (tokenOfKind rightBrace))"
  by (simp add: parse_def newParser_def tokenOfKind_def mkToken_def isEOF_def peek_def
      nextTok_def expect_def ParseInt_def isDigit_def)

subsection \<open>Rest arguments\<close>

text \<open>
  C8. A rest argument followed immediately by the right parenthesis is not parsed. The
  definition \<open>fn getRest(first, rest...) { ... }\<close> starts with \<open>fn\<close>, \<open>getRest\<close>, a left
  parenthesis, \<open>first\<close>, a comma, \<open>rest\<close>, \<open>...\<close> and the right parenthesis. After the
  ellipsis the loop over the arguments calls \<open>expect(comma)\<close>, which meets the right
  parenthesis and panics: no function node is produced, for whatever tokens follow and
  for any fuel from five units on.
\<close>

theorem fn_rest_argument_before_paren_panics:
  "parse pf (Suc (Suc (Suc (Suc (Suc n)))))
     (newParser (tokenOfKind fnKeyword # mkToken identifier ''getRest'' # tokenOfKind leftParen
                 # mkToken identifier ''first'' # tokenOfKind comma
                 # mkToken identifier ''rest'' # tokenOfKind ellipsis # tokenOfKind rightParen
                 # rest))
     = Panic (ExpectedGot comma (tokenOfKind rightParen))"
  by (simp add: parse_def newParser_def tokenOfKind_def mkToken_def isEOF_def peek_def
      nextTok_def expect_def)

end
